theory Spec2Isabelle
  imports Main "HOL-Library.Word" "HOL-Library.AList"
begin

unbundle bit_operations_syntax

section \<open>Data\<close>

text \<open>
  A \<open>Uint8Array\<close> is a list of bytes.  A JavaScript string is a sequence of UTF-16 code
  units.  \<open>js\<close> writes an ASCII literal of the source as such a string.
\<close>

type_synonym byte = "8 word"
type_synonym str = "16 word list"

definition js :: "string \<Rightarrow> str" where
  "js s = map (\<lambda>c. of_nat (of_char c)) s"

section \<open>The byte decoder \<open>uint8ArrayToUtf8\<close>\<close>

text \<open>
  \<open>String.fromCharCode\<close> keeps the low 16 bits of its argument.  The bit operations of the
  source work on 32-bit integers; every value they build here is below \<open>2 ^ 21\<close>, so the
  sign bit is never set and the comparisons are those of the unsigned reading.
\<close>

definition fromCharCode :: "32 word \<Rightarrow> 16 word" where
  "fromCharCode c = ucast c"

definition num :: "byte \<Rightarrow> 32 word" where
  "num b = ucast b"

definition codepoint2 :: "byte \<Rightarrow> byte \<Rightarrow> 32 word" where
  "codepoint2 b b2 = push_bit 6 (num b AND 0x1f) OR (num b2 AND 0x3f)"

definition codepoint3 :: "byte \<Rightarrow> byte \<Rightarrow> byte \<Rightarrow> 32 word" where
  "codepoint3 b b2 b3 =
     push_bit 12 (num b AND 0x0f) OR push_bit 6 (num b2 AND 0x3f) OR (num b3 AND 0x3f)"

definition codepoint4 :: "byte \<Rightarrow> byte \<Rightarrow> byte \<Rightarrow> byte \<Rightarrow> 32 word" where
  "codepoint4 b b2 b3 b4 =
     push_bit 18 (num b AND 0x07) OR push_bit 12 (num b2 AND 0x3f)
       OR push_bit 6 (num b3 AND 0x3f) OR (num b4 AND 0x3f)"

text \<open>The code units appended for a four-byte sequence: a surrogate pair above the BMP.\<close>

definition units4 :: "32 word \<Rightarrow> str" where
  "units4 codepoint =
     (if codepoint > 0xffff then
        (let cp = codepoint - 0x10000;
             highSurrogate = 0xd800 + drop_bit 10 cp;
             lowSurrogate = 0xdc00 + (cp AND 0x3ff)
         in [fromCharCode highSurrogate, fromCharCode lowSurrogate])
      else [fromCharCode codepoint])"

text \<open>
  The \<open>while (i < len)\<close> loop.  The argument is the part of the array from index \<open>i\<close> on;
  the value is what the loop appends to \<open>result\<close> from there.  A \<open>break\<close> ends the loop, so
  nothing more is appended: the value is \<open>[]\<close> whatever bytes remain.
\<close>

fun uint8ArrayToUtf8 :: "byte list \<Rightarrow> str" where
  "uint8ArrayToUtf8 [] = []"
| "uint8ArrayToUtf8 (b # rest) =
     (if b < 0x80 then fromCharCode (num b) # uint8ArrayToUtf8 rest
      else if 0xc2 \<le> b \<and> b \<le> 0xdf then
        (case rest of
           b2 # rest2 \<Rightarrow>
             if b2 AND 0xc0 \<noteq> 0x80 then []
             else fromCharCode (codepoint2 b b2) # uint8ArrayToUtf8 rest2
         | _ \<Rightarrow> [])
      else if 0xe0 \<le> b \<and> b \<le> 0xef then
        (case rest of
           b2 # b3 # rest3 \<Rightarrow>
             if b2 AND 0xc0 \<noteq> 0x80 \<or> b3 AND 0xc0 \<noteq> 0x80 then []
             else fromCharCode (codepoint3 b b2 b3) # uint8ArrayToUtf8 rest3
         | _ \<Rightarrow> [])
      else if 0xf0 \<le> b \<and> b \<le> 0xf4 then
        (case rest of
           b2 # b3 # b4 # rest4 \<Rightarrow>
             if b2 AND 0xc0 \<noteq> 0x80 \<or> b3 AND 0xc0 \<noteq> 0x80 \<or> b4 AND 0xc0 \<noteq> 0x80 then []
             else units4 (codepoint4 b b2 b3 b4) @ uint8ArrayToUtf8 rest4
         | _ \<Rightarrow> [])
      else uint8ArrayToUtf8 rest)"

text \<open>
  Well-formed UTF-8 (the Unicode standard's table of byte sequences), used to state which
  inputs a claim is about.  A continuation byte has the bit pattern \<open>10xxxxxx\<close>.
\<close>

definition is_cont :: "byte \<Rightarrow> bool" where
  "is_cont b = (b AND 0xc0 = 0x80)"

fun valid_utf8 :: "byte list \<Rightarrow> bool" where
  "valid_utf8 [] = True"
| "valid_utf8 (b # rest) =
     (if b < 0x80 then valid_utf8 rest
      else if 0xc2 \<le> b \<and> b \<le> 0xdf then
        (case rest of
           b2 # rest2 \<Rightarrow> is_cont b2 \<and> valid_utf8 rest2
         | _ \<Rightarrow> False)
      else if 0xe0 \<le> b \<and> b \<le> 0xef then
        (case rest of
           b2 # b3 # rest3 \<Rightarrow>
             is_cont b2 \<and> (b = 0xe0 \<longrightarrow> 0xa0 \<le> b2) \<and> (b = 0xed \<longrightarrow> b2 \<le> 0x9f)
               \<and> is_cont b3 \<and> valid_utf8 rest3
         | _ \<Rightarrow> False)
      else if 0xf0 \<le> b \<and> b \<le> 0xf4 then
        (case rest of
           b2 # b3 # b4 # rest4 \<Rightarrow>
             is_cont b2 \<and> (b = 0xf0 \<longrightarrow> 0x90 \<le> b2) \<and> (b = 0xf4 \<longrightarrow> b2 \<le> 0x8f)
               \<and> is_cont b3 \<and> is_cont b4 \<and> valid_utf8 rest4
         | _ \<Rightarrow> False)
      else False)"

section \<open>String operations used by the frame parser\<close>

definition LF :: "16 word" where "LF = 0x0a"
definition CR :: "16 word" where "CR = 0x0d"
definition colon :: "16 word" where "colon = 0x3a"
definition space :: "16 word" where "space = 0x20"

text \<open>\<open>s.split("\n")\<close>: never empty; the last element is what follows the last newline.\<close>

fun split_lines :: "str \<Rightarrow> str list" where
  "split_lines [] = [[]]"
| "split_lines (c # cs) =
     (if c = LF then [] # split_lines cs
      else (c # hd (split_lines cs)) # tl (split_lines cs))"

text \<open>\<open>s.indexOf(c)\<close> for a single code unit: \<open>-1\<close> when \<open>c\<close> does not occur.\<close>

fun indexOf :: "str \<Rightarrow> 16 word \<Rightarrow> int" where
  "indexOf [] c = - 1"
| "indexOf (x # xs) c =
     (if x = c then 0 else (let i = indexOf xs c in if i < 0 then - 1 else i + 1))"

definition startsWith :: "str \<Rightarrow> str \<Rightarrow> bool" where
  "startsWith s p = (take (length p) s = p)"

text \<open>\<open>s.substring(0, k)\<close> and \<open>s.substring(k)\<close>, for \<open>k \<ge> 0\<close>.\<close>

definition substring_to :: "str \<Rightarrow> int \<Rightarrow> str" where
  "substring_to s k = take (nat k) s"

definition substring_from :: "str \<Rightarrow> int \<Rightarrow> str" where
  "substring_from s k = drop (nat k) s"

section \<open>Messages, callbacks and the session state\<close>

type_synonym headers = "(str \<times> str) list"

datatype response = Response (statusCode: int) (header: headers)

text \<open>
  A thrown value, by what \<open>String(err)\<close> makes of it.  \<open>FatalError\<close> is the class of the
  source; it is not exported, so only the library constructs one.
\<close>

datatype err = Thrown string | FatalError string

fun String_of :: "err \<Rightarrow> string" where
  "String_of (Thrown m) = m"
| "String_of (FatalError m) = m"

text \<open>\<open>EventSourceMessage\<close>, and \<open>Partial<EventSourceMessage>\<close> for the message being built.\<close>

record EventSourceMessage =
  msg_id :: "str option"
  msg_event :: "str option"
  msg_data :: str

record PartialMessage =
  p_id :: "str option"
  p_event :: "str option"
  p_data :: "str option"

definition empty_message :: PartialMessage where
  "empty_message = \<lparr>p_id = None, p_event = None, p_data = None\<rparr>"

text \<open>
  One invocation of a user callback: whether it called \<open>abort()\<close> on the returned handle
  while it ran (the only operation on the session a user has), and how it ended.
\<close>

datatype 'a outcome = Returns 'a | Throws err

type_synonym 'a call = "bool \<times> 'a outcome"

text \<open>
  The options of \<open>FetchEventSourceInit\<close> that the controller reads.  \<open>url\<close>, \<open>method\<close>,
  \<open>body\<close> and \<open>timeout\<close> are handed to the transport unchanged and are left out.
  \<open>onerror\<close> returns a delay, or \<open>None\<close> for \<open>null\<close>/\<open>undefined\<close>.
\<close>

record config =
  inputHeaders :: headers
  onopen :: "(response \<Rightarrow> unit call) option"
  onmessage :: "(EventSourceMessage \<Rightarrow> unit call) option"
  onclose :: "(unit call) option"
  onerror :: "(err \<Rightarrow> (int option) call) option"
  openWhenHidden :: bool
  maxRetryCount :: "int option"

text \<open>A request task of the transport, by what its \<open>abort()\<close> throws, if anything.\<close>

datatype task = RequestTask "err option"

text \<open>
  What \<open>Taro.request\<close> and the two registrations do inside the \<open>try\<close> of \<open>connect\<close>: all
  return, or the request throws, or a registration throws after the task was stored.
\<close>

datatype transport = Opens task | Request_throws err | Register_throws task err

text \<open>What the session does that can be observed from outside, in order.\<close>

datatype effect =
    Request headers
  | TaskAbort
  | SetTimeout int
  | ClearTimeout
  | Onopen response
  | Onmessage EventSourceMessage
  | Onclose
  | Onerror err
  | ConsoleError string
  | ConsoleWarn string
  | Rejected err
  | Uncaught err

text \<open>The variables captured by the closures of \<open>fetchEventSource\<close>, and the effects so far.\<close>

record session =
  requestTask :: "task option"
  retryCount :: int
  retryTimer :: "int option"
  isAborted :: bool
  lastEventId :: str
  buffer :: str
  trace :: "effect list"

definition initial :: session where
  "initial = \<lparr>requestTask = None, retryCount = 0, retryTimer = None, isAborted = False,
               lastEventId = [], buffer = [], trace = []\<rparr>"

definition emit :: "effect list \<Rightarrow> session \<Rightarrow> session" where
  "emit es s = s\<lparr>trace := trace s @ es\<rparr>"

definition DefaultRetryInterval :: int where
  "DefaultRetryInterval = 1000"

definition LastEventId :: str where
  "LastEventId = js ''last-event-id''"

section \<open>The session controller\<close>

definition abort :: "session \<Rightarrow> session" where
  "abort s =
     (let s1 = s\<lparr>isAborted := True\<rparr>;
          s2 = (case requestTask s1 of
                  None \<Rightarrow> s1
                | Some (RequestTask thrown) \<Rightarrow>
                    (emit (case thrown of
                             None \<Rightarrow> [TaskAbort]
                           | Some e \<Rightarrow> [TaskAbort, ConsoleError ''abort error:'']) s1)
                      \<lparr>requestTask := None\<rparr>);
          s3 = (case retryTimer s2 of
                  None \<Rightarrow> s2
                | Some d \<Rightarrow> (emit [ClearTimeout] s2)\<lparr>retryTimer := None\<rparr>)
      in s3\<lparr>buffer := []\<rparr>)"

text \<open>A user callback runs: the call is observed, then what the callback did to the handle.\<close>

definition called :: "effect \<Rightarrow> bool \<Rightarrow> session \<Rightarrow> session" where
  "called e aborts s = (let s1 = emit [e] s in if aborts then abort s1 else s1)"

definition scheduleRetry :: "config \<Rightarrow> int \<Rightarrow> session \<Rightarrow> session" where
  "scheduleRetry cfg delayMs s =
     (if isAborted s then s
      else if (case maxRetryCount cfg of None \<Rightarrow> False | Some m \<Rightarrow> retryCount s \<ge> m)
        then emit [ConsoleWarn ''Max retry count reached''] s
      else emit [SetTimeout delayMs]
             (s\<lparr>retryCount := retryCount s + 1, retryTimer := Some delayMs\<rparr>))"

text \<open>
  \<open>retryDelay = onerror?.(err)\<close> in a \<open>try\<close> whose \<open>catch\<close> sets \<open>null\<close>, then
  \<open>if (retryDelay != null) scheduleRetry(retryDelay)\<close>: the text shared by the \<open>fail\<close>
  callback and the \<open>catch\<close> of \<open>connect\<close>.
\<close>

definition retry_by_onerror :: "config \<Rightarrow> err \<Rightarrow> session \<Rightarrow> session" where
  "retry_by_onerror cfg e s =
     (case onerror cfg of
        None \<Rightarrow> s
      | Some f \<Rightarrow>
          (case f e of (aborts, out) \<Rightarrow>
             (let s1 = called (Onerror e) aborts s
              in case out of
                   Returns (Some retryDelay) \<Rightarrow> scheduleRetry cfg retryDelay s1
                 | Returns None \<Rightarrow> s1
                 | Throws _ \<Rightarrow> s1)))"

definition connect_catch :: "config \<Rightarrow> err \<Rightarrow> session \<Rightarrow> session" where
  "connect_catch cfg e s =
     (if isAborted s then s
      else case e of
             FatalError m \<Rightarrow> emit [Rejected (FatalError m)] (abort s)
           | Thrown m \<Rightarrow> retry_by_onerror cfg e s)"

definition connect :: "config \<Rightarrow> transport \<Rightarrow> session \<Rightarrow> session" where
  "connect cfg tr s =
     (if isAborted s then s
      else
        (let headers = (if lastEventId s \<noteq> []
                        then AList.update LastEventId (lastEventId s) (inputHeaders cfg)
                        else inputHeaders cfg);
             s1 = emit [Request headers] s
         in case tr of
              Opens t \<Rightarrow> s1\<lparr>requestTask := Some t\<rparr>
            | Request_throws e \<Rightarrow> connect_catch cfg e s1
            | Register_throws t e \<Rightarrow> connect_catch cfg e (s1\<lparr>requestTask := Some t\<rparr>)))"

text \<open>The \<open>success\<close> callback of the request: the transport ended the response normally.\<close>

definition on_success :: "config \<Rightarrow> session \<Rightarrow> session" where
  "on_success cfg s =
     (if isAborted s then s
      else
        (let s1 = s\<lparr>retryCount := 0, requestTask := None\<rparr>;
             s2 = (case onclose cfg of
                     None \<Rightarrow> s1
                   | Some (aborts, out) \<Rightarrow>
                       (let s' = called Onclose aborts s1
                        in case out of
                             Returns _ \<Rightarrow> s'
                           | Throws e \<Rightarrow> emit [ConsoleError ''onclose error:''] s'))
         in if \<not> isAborted s2 \<and> \<not> openWhenHidden cfg
            then scheduleRetry cfg DefaultRetryInterval s2 else s2))"

text \<open>The \<open>fail\<close> callback of the request.\<close>

definition on_fail :: "config \<Rightarrow> err \<Rightarrow> session \<Rightarrow> session" where
  "on_fail cfg e s =
     (if isAborted s then s
      else retry_by_onerror cfg e (s\<lparr>requestTask := None\<rparr>))"

text \<open>
  The callback given to \<open>onHeadersReceived\<close>.  It is an \<open>async\<close> function that the
  transport calls after \<open>connect\<close> has returned: its \<open>throw new FatalError\<close> rejects the
  promise of this callback, which nothing awaits.
\<close>

definition on_headers_received :: "config \<Rightarrow> response \<Rightarrow> session \<Rightarrow> session" where
  "on_headers_received cfg res s =
     (if isAborted s then s
      else case onopen cfg of
             None \<Rightarrow> s
           | Some f \<Rightarrow>
               (case f res of (aborts, out) \<Rightarrow>
                  (let s1 = called (Onopen res) aborts s
                   in case out of
                        Returns _ \<Rightarrow> s1
                      | Throws e \<Rightarrow>
                          emit [ConsoleError ''onopen error:'',
                                Rejected (FatalError (String_of e))] s1)))"

section \<open>The frame parser inside \<open>handleChunk\<close>\<close>

text \<open>The field name and the value of a line that is neither a terminator nor a comment.\<close>

definition field_of :: "str \<Rightarrow> str" where
  "field_of line =
     (let colonIndex = indexOf line colon
      in if colonIndex > 0 then substring_to line colonIndex else line)"

definition value_of :: "str \<Rightarrow> str" where
  "value_of line =
     (let colonIndex = indexOf line colon;
          v = (if colonIndex > 0 then substring_from line (colonIndex + 1) else [])
      in if startsWith v [space] then substring_from v 1 else v)"

text \<open>The \<open>switch (field)\<close>.  \<open>message.data || ""\<close> is \<open>""\<close> when \<open>data\<close> is not set.\<close>

definition set_field :: "str \<Rightarrow> str \<Rightarrow> PartialMessage \<Rightarrow> PartialMessage" where
  "set_field field v message =
     (if field = js ''event'' then message\<lparr>p_event := Some v\<rparr>
      else if field = js ''data'' then
        message\<lparr>p_data := Some ((case p_data message of None \<Rightarrow> [] | Some d \<Rightarrow> d) @ v @ [LF])\<rparr>
      else if field = js ''id'' then message\<lparr>p_id := Some v\<rparr>
      else if field = js ''retry'' then message
      else message)"

text \<open>
  A terminator line with \<open>message.data\<close> defined: \<open>onmessage\<close> is called, then
  \<open>lastEventId\<close> is set if \<open>message.id\<close> is a non-empty string.  A throw of \<open>onmessage\<close>
  leaves the loop for the \<open>catch\<close> of \<open>handleChunk\<close>.
\<close>

definition update_lastEventId :: "PartialMessage \<Rightarrow> session \<Rightarrow> session" where
  "update_lastEventId message s =
     (case p_id message of
        Some i \<Rightarrow> if i \<noteq> [] then s\<lparr>lastEventId := i\<rparr> else s
      | None \<Rightarrow> s)"

definition send_message :: "config \<Rightarrow> PartialMessage \<Rightarrow> str \<Rightarrow> session \<Rightarrow> err option \<times> session" where
  "send_message cfg message d s =
     (let ev = \<lparr>msg_id = p_id message, msg_event = p_event message, msg_data = d\<rparr>
      in case onmessage cfg of
           None \<Rightarrow> (None, update_lastEventId message s)
         | Some f \<Rightarrow>
             (case f ev of (aborts, out) \<Rightarrow>
                (let s1 = called (Onmessage ev) aborts s
                 in case out of
                      Throws e \<Rightarrow> (Some e, s1)
                    | Returns _ \<Rightarrow> (None, update_lastEventId message s1))))"

text \<open>
  The \<open>for (const line of lines)\<close> loop, from the current \<open>message\<close>.  The result is the
  error that left the loop, if any, and the session as the loop left it.
\<close>

fun process_lines :: "config \<Rightarrow> str list \<Rightarrow> PartialMessage \<Rightarrow> session \<Rightarrow> err option \<times> session" where
  "process_lines cfg [] message s = (None, s)"
| "process_lines cfg (line # lines) message s =
     (if line = [CR] \<or> line = [] then
        (case p_data message of
           Some d \<Rightarrow>
             (case send_message cfg message d s of
                (Some e, s') \<Rightarrow> (Some e, s')
              | (None, s') \<Rightarrow> process_lines cfg lines empty_message s')
         | None \<Rightarrow> process_lines cfg lines empty_message s)
      else if startsWith line [colon] then process_lines cfg lines message s
      else process_lines cfg lines (set_field (field_of line) (value_of line) message) s)"

text \<open>
  \<open>handleChunk\<close>, with the byte decoder as a parameter: \<open>uint8ArrayToUtf8\<close> in one source
  file, the platform's \<open>new TextDecoder("utf-8").decode\<close> in the other.  \<open>message\<close> is
  declared inside the function, so every call starts from the empty message.
\<close>

definition handleChunk :: "(byte list \<Rightarrow> str) \<Rightarrow> config \<Rightarrow> byte list \<Rightarrow> session \<Rightarrow> session" where
  "handleChunk decode cfg bytes s =
     (let text = decode bytes;
          buf = buffer s @ text;
          lines = split_lines buf;
          s1 = s\<lparr>buffer := last lines\<rparr>
      in case process_lines cfg (butlast lines) empty_message s1 of
           (None, s2) \<Rightarrow> s2
         | (Some e, s2) \<Rightarrow>
             (let s3 = emit [ConsoleError ''handleChunk error:''] s2
              in case onerror cfg of
                   None \<Rightarrow> s3
                 | Some f \<Rightarrow>
                     (case f e of (aborts, out) \<Rightarrow>
                        (let s4 = called (Onerror e) aborts s3
                         in case out of
                              Returns _ \<Rightarrow> s4
                            | Throws e' \<Rightarrow> emit [Uncaught e'] s4))))"

definition on_chunk_received :: "(byte list \<Rightarrow> str) \<Rightarrow> config \<Rightarrow> byte list \<Rightarrow> session \<Rightarrow> session" where
  "on_chunk_received decode cfg bytes s =
     (if isAborted s then s else handleChunk decode cfg bytes s)"

text \<open>The callback given to \<open>setTimeout\<close> by \<open>scheduleRetry\<close>.\<close>

definition on_timer :: "config \<Rightarrow> transport \<Rightarrow> session \<Rightarrow> session" where
  "on_timer cfg tr s = connect cfg tr (s\<lparr>retryTimer := None\<rparr>)"

text \<open>\<open>fetchEventSource\<close> itself: the first \<open>connect()\<close>; the handle's \<open>abort\<close> is \<open>abort\<close>.\<close>

definition fetchEventSource :: "config \<Rightarrow> transport \<Rightarrow> session" where
  "fetchEventSource cfg tr = connect cfg tr initial"

section \<open>Signals\<close>

text \<open>
  What can reach a session after \<open>fetchEventSource\<close> returned: the four signals of the
  transport, the retry timer, and the user's \<open>abort()\<close>.  \<open>deliver\<close> runs the handler.
\<close>

datatype signal =
    HeadersReceived response
  | ChunkReceived "byte list"
  | Completed
  | Failed err
  | TimerFired transport
  | Abort

fun deliver :: "(byte list \<Rightarrow> str) \<Rightarrow> config \<Rightarrow> signal \<Rightarrow> session \<Rightarrow> session" where
  "deliver decode cfg (HeadersReceived res) s = on_headers_received cfg res s"
| "deliver decode cfg (ChunkReceived bytes) s = on_chunk_received decode cfg bytes s"
| "deliver decode cfg Completed s = on_success cfg s"
| "deliver decode cfg (Failed e) s = on_fail cfg e s"
| "deliver decode cfg (TimerFired tr) s = on_timer cfg tr s"
| "deliver decode cfg Abort s = abort s"

fun run :: "(byte list \<Rightarrow> str) \<Rightarrow> config \<Rightarrow> signal list \<Rightarrow> session \<Rightarrow> session" where
  "run decode cfg [] s = s"
| "run decode cfg (sig # sigs) s = run decode cfg sigs (deliver decode cfg sig s)"

text \<open>The user callbacks among the effects.\<close>

fun is_callback :: "effect \<Rightarrow> bool" where
  "is_callback (Onopen _) = True"
| "is_callback (Onmessage _) = True"
| "is_callback Onclose = True"
| "is_callback (Onerror _) = True"
| "is_callback _ = False"

definition callbacks :: "session \<Rightarrow> effect list" where
  "callbacks s = filter is_callback (trace s)"

text \<open>The messages handed to \<open>onmessage\<close>, in order.\<close>

fun messages_of :: "effect list \<Rightarrow> EventSourceMessage list" where
  "messages_of [] = []"
| "messages_of (Onmessage m # es) = m # messages_of es"
| "messages_of (_ # es) = messages_of es"

text \<open>The header sets of the requests issued, in order.\<close>

fun requests_of :: "effect list \<Rightarrow> headers list" where
  "requests_of [] = []"
| "requests_of (Request h # es) = h # requests_of es"
| "requests_of (_ # es) = requests_of es"

section \<open>Example inputs\<close>

text \<open>Bytes of an ASCII literal; a newline is written \<open>0x0a\<close>.\<close>

definition ascii :: "string \<Rightarrow> byte list" where
  "ascii s = map (\<lambda>c. of_nat (of_char c)) s"

text \<open>
  A configuration with every callback set and returning normally; \<open>onerror\<close> asks for a
  retry after 500 ms; at most two retries.
\<close>

definition listener :: config where
  "listener =
     \<lparr>inputHeaders = [], onopen = Some (\<lambda>res. (False, Returns ())),
      onmessage = Some (\<lambda>m. (False, Returns ())), onclose = Some (False, Returns ()),
      onerror = Some (\<lambda>e. (False, Returns (Some 500))), openWhenHidden = False,
      maxRetryCount = Some 2\<rparr>"

text \<open>The same, but \<open>onopen\<close> throws; and the same with no retry allowed.\<close>

definition failing_onopen :: config where
  "failing_onopen = listener\<lparr>onopen := Some (\<lambda>res. (False, Throws (Thrown ''refused'')))\<rparr>"

definition no_retries :: config where
  "no_retries = listener\<lparr>maxRetryCount := Some 0\<rparr>"

text \<open>A transport that opens the request; \<open>abort()\<close> on its task does not throw.\<close>

definition task0 :: transport where
  "task0 = Opens (RequestTask None)"

section \<open>Connect attempts and the retry timer\<close>

text \<open>The number of requests issued so far.\<close>

definition attempts :: "session \<Rightarrow> nat" where
  "attempts s = length (requests_of (trace s))"

text \<open>
  A timer fires only while the session holds one (\<open>retryTimer\<close> is set by \<open>setTimeout\<close>
  and cleared when the timer fires or is cancelled).  Nothing is required of the other
  signals.
\<close>

fun enabled :: "signal \<Rightarrow> session \<Rightarrow> bool" where
  "enabled (TimerFired tr) s = (retryTimer s \<noteq> None)"
| "enabled _ s = True"

fun admissible :: "(byte list \<Rightarrow> str) \<Rightarrow> config \<Rightarrow> signal list \<Rightarrow> session \<Rightarrow> bool" where
  "admissible decode cfg [] s = True"
| "admissible decode cfg (sig # sigs) s =
     (enabled sig s \<and> admissible decode cfg sigs (deliver decode cfg sig s))"

text \<open>
  A step that issues no request, keeps \<open>retryCount\<close> and at most cancels the timer; and
  the invariant of a session with at most two retries: every request but the first was
  paid for by one increment of \<open>retryCount\<close>, a pending timer by one more.
\<close>

definition quiet :: "session \<Rightarrow> session \<Rightarrow> bool" where
  "quiet s s' =
     (requests_of (trace s') = requests_of (trace s) \<and> retryCount s' = retryCount s
      \<and> (retryTimer s' = retryTimer s \<or> retryTimer s' = None))"

definition budget_inv :: "session \<Rightarrow> bool" where
  "budget_inv s =
     (retryCount s \<le> 2
      \<and> int (attempts s) + (if retryTimer s = None then 0 else 1) \<le> retryCount s + 1)"





section \<open>Steps and the last event id\<close>

text \<open>
  A step that keeps \<open>lastEventId\<close> and only adds effects, none of them a request.  A
  message that leaves the stored id \<open>i\<close> as it is: it has no id, an empty one, or \<open>i\<close>.
  A header set that carries \<open>last-event-id: i\<close>.  And a step, or a run, after which
  the stored id is still \<open>i\<close> and in which every request carried it, provided it started
  from \<open>i\<close> and every message it delivered leaves \<open>i\<close> as it is.
\<close>

definition keeps :: "session \<Rightarrow> session \<Rightarrow> bool" where
  "keeps s s' =
     (lastEventId s' = lastEventId s \<and> (\<exists>es. trace s' = trace s @ es \<and> requests_of es = []))"

definition id_kept :: "str \<Rightarrow> EventSourceMessage \<Rightarrow> bool" where
  "id_kept i m = (msg_id m = None \<or> msg_id m = Some [] \<or> msg_id m = Some i)"

definition sends :: "str \<Rightarrow> headers \<Rightarrow> bool" where
  "sends i h = (map_of h (js ''last-event-id'') = Some i)"

definition follows :: "str \<Rightarrow> session \<Rightarrow> session \<Rightarrow> bool" where
  "follows i s s' =
     (\<exists>es. trace s' = trace s @ es \<and>
        (lastEventId s = i \<and> (\<forall>m \<in> set (messages_of es). id_kept i m)
         \<longrightarrow> lastEventId s' = i \<and> (\<forall>h \<in> set (requests_of es). sends i h)))"

section \<open>Basic facts\<close>

lemmas controller_defs =
  fetchEventSource_def connect_def connect_catch_def retry_by_onerror_def scheduleRetry_def
  on_success_def on_fail_def on_headers_received_def on_timer_def on_chunk_received_def
  called_def abort_def emit_def initial_def Let_def DefaultRetryInterval_def

lemmas parser_defs =
  handleChunk_def send_message_def update_lastEventId_def set_field_def field_of_def
  value_of_def startsWith_def substring_to_def substring_from_def empty_message_def
  js_def ascii_def LF_def CR_def colon_def space_def fromCharCode_def num_def

lemma split_lines_not_empty [simp]: "split_lines s \<noteq> []"
  by (induction s) simp_all

lemma messages_of_append [simp]: "messages_of (xs @ ys) = messages_of xs @ messages_of ys"
  by (induction xs rule: messages_of.induct) simp_all

lemma requests_of_append [simp]: "requests_of (xs @ ys) = requests_of xs @ requests_of ys"
  by (induction xs rule: requests_of.induct) simp_all

lemma emit_fields [simp]:
  "trace (emit es s) = trace s @ es"
  "requestTask (emit es s) = requestTask s"
  "retryCount (emit es s) = retryCount s"
  "retryTimer (emit es s) = retryTimer s"
  "isAborted (emit es s) = isAborted s"
  "lastEventId (emit es s) = lastEventId s"
  "buffer (emit es s) = buffer s"
  by (simp_all add: emit_def)

lemma abort_fields [simp]:
  "requestTask (abort s) = None"
  "retryCount (abort s) = retryCount s"
  "retryTimer (abort s) = None"
  "isAborted (abort s) = True"
  "lastEventId (abort s) = lastEventId s"
  "buffer (abort s) = []"
  by (simp_all add: abort_def Let_def split: option.splits task.splits)

lemma abort_messages [simp]: "messages_of (trace (abort s)) = messages_of (trace s)"
  by (simp add: abort_def Let_def split: option.splits task.splits)

lemma abort_requests [simp]: "requests_of (trace (abort s)) = requests_of (trace s)"
  by (simp add: abort_def Let_def split: option.splits task.splits)

lemma abort_callbacks [simp]: "callbacks (abort s) = callbacks s"
  by (simp add: callbacks_def abort_def Let_def split: option.splits task.splits)

lemma abort_twice: "abort (abort s) = abort s"
  by (simp add: abort_def Let_def emit_def split: option.splits task.splits)

lemma called_fields [simp]:
  "retryCount (called e a s) = retryCount s"
  "lastEventId (called e a s) = lastEventId s"
  "isAborted (called e a s) = (a \<or> isAborted s)"
  "messages_of (trace (called e a s)) = messages_of (trace s) @ messages_of [e]"
  "requests_of (trace (called e a s)) = requests_of (trace s) @ requests_of [e]"
  by (simp_all add: called_def Let_def)

lemma update_lastEventId_fields [simp]:
  "trace (update_lastEventId m s) = trace s"
  "requestTask (update_lastEventId m s) = requestTask s"
  "retryCount (update_lastEventId m s) = retryCount s"
  "retryTimer (update_lastEventId m s) = retryTimer s"
  "isAborted (update_lastEventId m s) = isAborted s"
  "buffer (update_lastEventId m s) = buffer s"
  by (simp_all add: update_lastEventId_def split: option.splits)

section \<open>After \<open>abort()\<close>\<close>

lemma deliver_aborted: "deliver decode cfg sig (abort s) = abort s"
proof (cases sig)
  case (TimerFired tr)
  have "(abort s)\<lparr>retryTimer := None\<rparr> = abort s"
    by (simp add: abort_def Let_def split: option.splits task.splits)
  then show ?thesis using TimerFired by (simp add: on_timer_def connect_def)
qed (simp_all add: on_headers_received_def on_chunk_received_def on_success_def
       on_fail_def abort_twice)

lemma run_aborted: "run decode cfg sigs (abort s) = abort s"
  by (induction sigs) (simp_all add: deliver_aborted)

text \<open>
  Claim C5.  Once \<open>abort()\<close> has been called, no sequence of signals changes the session
  at all: whatever transport signals, timer firings and further \<open>abort()\<close> calls follow,
  the state and the list of observed effects stay those that \<open>abort()\<close> left.  So no user
  callback is invoked any more (and \<open>abort()\<close> itself invokes none), \<open>isAborted\<close> stays
  true, and a second \<open>abort()\<close> does nothing.
\<close>

theorem abort_finality:
  "run decode cfg sigs (abort s) = abort s
   \<and> callbacks (run decode cfg sigs (abort s)) = callbacks s
   \<and> isAborted (run decode cfg sigs (abort s))
   \<and> abort (abort s) = abort s"
  by (simp add: run_aborted abort_twice)

section \<open>Field lines\<close>

lemma field_data: "field_of (js ''data'') = js ''data''" "value_of (js ''data'') = []"
  by (simp_all add: field_of_def value_of_def js_def colon_def startsWith_def space_def)

lemma set_data:
  "set_field (js ''data'') v message =
     message\<lparr>p_data := Some ((case p_data message of None \<Rightarrow> [] | Some d \<Rightarrow> d) @ v @ [LF])\<rparr>"
  by (simp add: set_field_def) (simp add: js_def)

lemma split_data: "split_lines (js ''data'' @ [LF, LF]) = [js ''data'', [], []]"
  by (simp add: js_def LF_def)

lemma data_is_field:
  "js ''data'' \<noteq> [CR]" "js ''data'' \<noteq> []" "\<not> startsWith (js ''data'') [colon]"
  by (simp_all add: js_def startsWith_def colon_def)

lemma ascii_data: "uint8ArrayToUtf8 (ascii ''data'' @ [0x0a, 0x0a]) = js ''data'' @ [LF, LF]"
  by (simp add: ascii_def js_def LF_def fromCharCode_def num_def)

text \<open>
  Claim C10.  The line \<open>data\<close> without a colon is the field \<open>data\<close> with the empty value:
  it appends a bare newline to the data of the message being built.  A chunk that
  decodes to that line and a blank line, on an empty buffer, hands \<open>onmessage\<close> one
  message whose data is the newline.
\<close>

theorem data_without_colon:
  "set_field (field_of (js ''data'')) (value_of (js ''data'')) message
     = message\<lparr>p_data := Some ((case p_data message of None \<Rightarrow> [] | Some d \<Rightarrow> d) @ [LF])\<rparr>
   \<and> (buffer s = [] \<and> decode bytes = js ''data'' @ [LF, LF] \<and> onmessage cfg = Some f
        \<longrightarrow> messages_of (trace (handleChunk decode cfg bytes s))
           = messages_of (trace s) @ [\<lparr>msg_id = None, msg_event = None, msg_data = [LF]\<rparr>])"
proof (intro conjI impI)
  show "set_field (field_of (js ''data'')) (value_of (js ''data'')) message
     = message\<lparr>p_data := Some ((case p_data message of None \<Rightarrow> [] | Some d \<Rightarrow> d) @ [LF])\<rparr>"
    by (simp add: field_data set_data)
next
  assume "buffer s = [] \<and> decode bytes = js ''data'' @ [LF, LF] \<and> onmessage cfg = Some f"
  then show "messages_of (trace (handleChunk decode cfg bytes s))
           = messages_of (trace s) @ [\<lparr>msg_id = None, msg_event = None, msg_data = [LF]\<rparr>]"
    by (simp add: handleChunk_def split_data data_is_field field_data set_data empty_message_def
          send_message_def Let_def split: prod.splits outcome.splits option.splits)
qed

theorem data_without_colon_witness:
  "messages_of (trace (handleChunk uint8ArrayToUtf8 listener (ascii ''data'' @ [0x0a, 0x0a]) initial))
     = [\<lparr>msg_id = None, msg_event = None, msg_data = [LF]\<rparr>]"
proof -
  have "buffer initial = []
      \<and> uint8ArrayToUtf8 (ascii ''data'' @ [0x0a, 0x0a]) = js ''data'' @ [LF, LF]
      \<and> onmessage listener = Some (\<lambda>m. (False, Returns ()))"
    by (simp add: initial_def ascii_data listener_def)
  with data_without_colon [of empty_message initial uint8ArrayToUtf8
      "ascii ''data'' @ [0x0a, 0x0a]" listener "\<lambda>m. (False, Returns ())"]
  show ?thesis by (simp add: initial_def)
qed

section \<open>Decoding chunks\<close>

lemma dec1: "b < 0x80 \<Longrightarrow> uint8ArrayToUtf8 (b # r) = fromCharCode (num b) # uint8ArrayToUtf8 r"
  by simp

lemma dec2:
  assumes "\<not> b < 0x80" "0xc2 \<le> b \<and> b \<le> 0xdf" "is_cont b2"
  shows "uint8ArrayToUtf8 (b # b2 # r) = fromCharCode (codepoint2 b b2) # uint8ArrayToUtf8 r"
  using assms(3)
  by (subst uint8ArrayToUtf8.simps)
    (simp add: assms(1,2) is_cont_def del: uint8ArrayToUtf8.simps)

lemma dec3:
  assumes "\<not> b < 0x80" "\<not> (0xc2 \<le> b \<and> b \<le> 0xdf)" "0xe0 \<le> b \<and> b \<le> 0xef"
    "is_cont b2" "is_cont b3"
  shows "uint8ArrayToUtf8 (b # b2 # b3 # r) =
           fromCharCode (codepoint3 b b2 b3) # uint8ArrayToUtf8 r"
  using assms(4,5)
  by (subst uint8ArrayToUtf8.simps)
    (simp add: assms(1,2,3) is_cont_def del: uint8ArrayToUtf8.simps)

lemma dec4:
  assumes "\<not> b < 0x80" "\<not> (0xc2 \<le> b \<and> b \<le> 0xdf)" "\<not> (0xe0 \<le> b \<and> b \<le> 0xef)"
    "0xf0 \<le> b \<and> b \<le> 0xf4" "is_cont b2" "is_cont b3" "is_cont b4"
  shows "uint8ArrayToUtf8 (b # b2 # b3 # b4 # r) =
           units4 (codepoint4 b b2 b3 b4) @ uint8ArrayToUtf8 r"
  using assms(5,6,7)
  by (subst uint8ArrayToUtf8.simps)
    (simp add: assms(1,2,3,4) is_cont_def del: uint8ArrayToUtf8.simps)

lemma valid_shape:
  assumes "valid_utf8 (b # rest)"
  shows "(b < 0x80 \<and> valid_utf8 rest)
    \<or> (\<not> b < 0x80 \<and> (0xc2 \<le> b \<and> b \<le> 0xdf)
          \<and> (\<exists>b2 r. rest = b2 # r \<and> is_cont b2 \<and> valid_utf8 r))
    \<or> (\<not> b < 0x80 \<and> \<not> (0xc2 \<le> b \<and> b \<le> 0xdf) \<and> (0xe0 \<le> b \<and> b \<le> 0xef)
          \<and> (\<exists>b2 b3 r. rest = b2 # b3 # r \<and> is_cont b2 \<and> is_cont b3 \<and> valid_utf8 r))
    \<or> (\<not> b < 0x80 \<and> \<not> (0xc2 \<le> b \<and> b \<le> 0xdf) \<and> \<not> (0xe0 \<le> b \<and> b \<le> 0xef)
          \<and> (0xf0 \<le> b \<and> b \<le> 0xf4)
          \<and> (\<exists>b2 b3 b4 r. rest = b2 # b3 # b4 # r \<and> is_cont b2 \<and> is_cont b3 \<and> is_cont b4
                 \<and> valid_utf8 r))"
proof (cases "b < 0x80")
  case True
  with assms show ?thesis by simp
next
  case n1: False
  show ?thesis
  proof (cases "0xc2 \<le> b \<and> b \<le> 0xdf")
    case c2: True
    with assms n1 show ?thesis by (cases rest) auto
  next
    case n2: False
    show ?thesis
    proof (cases "0xe0 \<le> b \<and> b \<le> 0xef")
      case c3: True
      with assms n1 n2 show ?thesis by (cases rest; cases "tl rest") auto
    next
      case n3: False
      show ?thesis
      proof (cases "0xf0 \<le> b \<and> b \<le> 0xf4")
        case c4: True
        with assms n1 n2 n3 show ?thesis
          by (cases rest; cases "tl rest"; cases "tl (tl rest)") auto
      next
        case False
        with assms n1 n2 n3 show ?thesis by simp
      qed
    qed
  qed
qed

lemma decode_append:
  "valid_utf8 xs \<Longrightarrow> uint8ArrayToUtf8 (xs @ ys) = uint8ArrayToUtf8 xs @ uint8ArrayToUtf8 ys"
proof (induction xs rule: length_induct)
  case (1 xs)
  show ?case
  proof (cases xs)
    case Nil
    then show ?thesis by simp
  next
    case (Cons b rest)
    from valid_shape [OF "1.prems" [unfolded Cons]] show ?thesis
    proof (elim disjE conjE exE)
      assume "b < 0x80" "valid_utf8 rest"
      with 1 Cons show ?thesis by (simp del: uint8ArrayToUtf8.simps add: dec1)
    next
      fix b2 r assume "\<not> b < 0x80" "0xc2 \<le> b" "b \<le> 0xdf" "rest = b2 # r" "is_cont b2" "valid_utf8 r"
      with 1 Cons show ?thesis by (simp del: uint8ArrayToUtf8.simps add: dec2)
    next
      fix b2 b3 r assume "\<not> b < 0x80" "\<not> (0xc2 \<le> b \<and> b \<le> 0xdf)" "0xe0 \<le> b" "b \<le> 0xef"
        "rest = b2 # b3 # r" "is_cont b2" "is_cont b3" "valid_utf8 r"
      with 1 Cons show ?thesis by (simp del: uint8ArrayToUtf8.simps add: dec3)
    next
      fix b2 b3 b4 r assume "\<not> b < 0x80" "\<not> (0xc2 \<le> b \<and> b \<le> 0xdf)"
        "\<not> (0xe0 \<le> b \<and> b \<le> 0xef)" "0xf0 \<le> b" "b \<le> 0xf4"
        "rest = b2 # b3 # b4 # r" "is_cont b2" "is_cont b3" "is_cont b4" "valid_utf8 r"
      with 1 Cons show ?thesis by (simp del: uint8ArrayToUtf8.simps add: dec4)
    qed
  qed
qed

lemma val2:
  assumes "\<not> b < 0x80" "0xc2 \<le> b \<and> b \<le> 0xdf"
  shows "valid_utf8 (b # b2 # r) = (is_cont b2 \<and> valid_utf8 r)"
  by (subst valid_utf8.simps) (simp add: assms del: valid_utf8.simps)

lemma val3:
  assumes "\<not> b < 0x80" "\<not> (0xc2 \<le> b \<and> b \<le> 0xdf)" "0xe0 \<le> b \<and> b \<le> 0xef"
  shows "valid_utf8 (b # b2 # b3 # r) =
           (is_cont b2 \<and> (b = 0xe0 \<longrightarrow> 0xa0 \<le> b2) \<and> (b = 0xed \<longrightarrow> b2 \<le> 0x9f)
              \<and> is_cont b3 \<and> valid_utf8 r)"
  by (subst valid_utf8.simps) (simp add: assms del: valid_utf8.simps)

lemma val4:
  assumes "\<not> b < 0x80" "\<not> (0xc2 \<le> b \<and> b \<le> 0xdf)" "\<not> (0xe0 \<le> b \<and> b \<le> 0xef)"
    "0xf0 \<le> b \<and> b \<le> 0xf4"
  shows "valid_utf8 (b # b2 # b3 # b4 # r) =
           (is_cont b2 \<and> (b = 0xf0 \<longrightarrow> 0x90 \<le> b2) \<and> (b = 0xf4 \<longrightarrow> b2 \<le> 0x8f)
              \<and> is_cont b3 \<and> is_cont b4 \<and> valid_utf8 r)"
  by (subst valid_utf8.simps) (simp add: assms del: valid_utf8.simps)

lemma valid_append: "valid_utf8 xs \<Longrightarrow> valid_utf8 ys \<Longrightarrow> valid_utf8 (xs @ ys)"
proof (induction xs rule: valid_utf8.induct)
  case 1
  then show ?case by simp
next
  case (2 b rest)
  show ?case
  proof (cases "b < 0x80")
    case True
    with 2 show ?thesis by simp
  next
    case n1: False
    show ?thesis
    proof (cases "0xc2 \<le> b \<and> b \<le> 0xdf")
      case c2: True
      show ?thesis
      proof (cases rest)
        case Nil
        with "2.prems" n1 c2 show ?thesis by simp
      next
        case (Cons b2 r2)
        with "2.prems" "2.IH"(2) [OF n1 c2 Cons] show ?thesis
          by (simp add: val2 [OF n1 c2] del: valid_utf8.simps(2))
      qed
    next
      case n2: False
      show ?thesis
      proof (cases "0xe0 \<le> b \<and> b \<le> 0xef")
        case c3: True
        show ?thesis
        proof (cases rest)
          case Nil
          with "2.prems" n1 n2 c3 show ?thesis by simp
        next
          case r: (Cons b2 r2)
          show ?thesis
          proof (cases r2)
            case Nil
            with "2.prems" n1 n2 c3 r show ?thesis by simp
          next
            case r2: (Cons b3 r3)
            from r r2 have shape: "rest = b2 # b3 # r3" by simp
            with "2.prems" "2.IH"(3) [OF n1 n2 c3 shape refl] show ?thesis
              by (simp add: val3 [OF n1 n2 c3] del: valid_utf8.simps(2))
          qed
        qed
      next
        case n3: False
        show ?thesis
        proof (cases "0xf0 \<le> b \<and> b \<le> 0xf4")
          case c4: True
          show ?thesis
          proof (cases rest)
            case Nil
            with "2.prems" n1 n2 n3 c4 show ?thesis by simp
          next
            case r: (Cons b2 r2)
            show ?thesis
            proof (cases r2)
              case Nil
              with "2.prems" n1 n2 n3 c4 r show ?thesis by simp
            next
              case r2: (Cons b3 r3)
              show ?thesis
              proof (cases r3)
                case Nil
                with "2.prems" n1 n2 n3 c4 r r2 show ?thesis by simp
              next
                case r3: (Cons b4 r4)
                from r r2 r3 have shape: "rest = b2 # b3 # b4 # r4" by simp
                with "2.prems" "2.IH"(4) [OF n1 n2 n3 c4 shape refl refl] show ?thesis
                  by (simp add: val4 [OF n1 n2 n3 c4] del: valid_utf8.simps(2))
              qed
            qed
          qed
        next
          case False
          with "2.prems" n1 n2 n3 show ?thesis by simp
        qed
      qed
    qed
  qed
qed

lemma valid_concat: "(\<forall>c \<in> set chunks. valid_utf8 c) \<Longrightarrow> valid_utf8 (concat chunks)"
  by (induction chunks) (simp_all add: valid_append del: valid_utf8.simps(2))

text \<open>
  Claim C1, as amended.  When every chunk is itself well-formed UTF-8, that is, when a
  well-formed byte sequence is split at boundaries between code points only, decoding the
  chunks one by one and concatenating gives what decoding the whole sequence gives.
\<close>

theorem chunks_at_codepoint_boundaries:
  "(\<forall>c \<in> set chunks. valid_utf8 c) \<Longrightarrow>
     valid_utf8 (concat chunks)
     \<and> uint8ArrayToUtf8 (concat chunks) = concat (map uint8ArrayToUtf8 chunks)"
proof
  assume v: "\<forall>c \<in> set chunks. valid_utf8 c"
  then show "valid_utf8 (concat chunks)" by (rule valid_concat)
  from v show "uint8ArrayToUtf8 (concat chunks) = concat (map uint8ArrayToUtf8 chunks)"
    by (induction chunks) (simp_all add: decode_append del: uint8ArrayToUtf8.simps(2))
qed

theorem chunks_at_codepoint_boundaries_witness:
  "valid_utf8 [0x41] \<and> valid_utf8 [0xc3, 0xa9] \<and> valid_utf8 [0xf0, 0x9f, 0x98, 0x80]
   \<and> valid_utf8 [0x41, 0xc3, 0xa9, 0xf0, 0x9f, 0x98, 0x80]
   \<and> uint8ArrayToUtf8 [0x41, 0xc3, 0xa9, 0xf0, 0x9f, 0x98, 0x80]
       = uint8ArrayToUtf8 [0x41] @ uint8ArrayToUtf8 [0xc3, 0xa9]
           @ uint8ArrayToUtf8 [0xf0, 0x9f, 0x98, 0x80]"
proof -
  have v: "\<forall>c \<in> set [[0x41], [0xc3, 0xa9], [0xf0, 0x9f, 0x98, 0x80::byte]]. valid_utf8 c"
    by (simp add: is_cont_def)
  from chunks_at_codepoint_boundaries [OF v] v show ?thesis
    by (simp del: uint8ArrayToUtf8.simps(2) valid_utf8.simps(2))
qed

text \<open>
  Claim C1 as stated fails: the two bytes of U+00E9 decode to that character in one
  chunk and to nothing when the chunk boundary falls between them.
\<close>

theorem split_inside_codepoint:
  "valid_utf8 [0xc3, 0xa9] \<and> uint8ArrayToUtf8 ([0xc3] @ [0xa9]) = [0xe9]
   \<and> uint8ArrayToUtf8 [0xc3] @ uint8ArrayToUtf8 [0xa9] = []"
  by (simp add: is_cont_def fromCharCode_def codepoint2_def num_def)

text \<open>
  Claim C9 at a failing input: after the lead byte \<open>0xc3\<close> the byte \<open>0x41\<close> is not a
  continuation byte, the loop is left, and the valid bytes \<open>0x41 0x42\<close> are not decoded.
  After the invalid lead byte \<open>0xff\<close> they are.
\<close>

theorem invalid_continuation_ends_decoding:
  "uint8ArrayToUtf8 [0xc3, 0x41, 0x42] = []
   \<and> uint8ArrayToUtf8 [0xff, 0x41, 0x42] = [0x41, 0x42]"
  by (simp add: fromCharCode_def num_def)

section \<open>The retry budget\<close>

lemma quiet_refl [simp]: "quiet s s"
  by (simp add: quiet_def)

lemma quiet_trans: "quiet s t \<Longrightarrow> quiet t u \<Longrightarrow> quiet s u"
  by (auto simp: quiet_def)

lemma quiet_emit: "requests_of es = [] \<Longrightarrow> quiet s (emit es s)"
  by (simp add: quiet_def)

lemma quiet_abort: "quiet s (abort s)"
  by (simp add: quiet_def)

lemma called_timer: "retryTimer (called e a s) = retryTimer s \<or> retryTimer (called e a s) = None"
  by (simp add: called_def Let_def)

lemma quiet_called: "requests_of [e] = [] \<Longrightarrow> quiet s (called e a s)"
  using called_timer [of e a s] by (simp add: quiet_def)

lemma quiet_update_lastEventId: "quiet s (update_lastEventId m s)"
  by (simp add: quiet_def)

lemma quiet_send_message: "quiet s (snd (send_message cfg m d s))"
proof (cases "onmessage cfg")
  case None
  then show ?thesis by (simp add: send_message_def quiet_update_lastEventId)
next
  case (Some f)
  obtain a out where f: "f \<lparr>msg_id = p_id m, msg_event = p_event m, msg_data = d\<rparr> = (a, out)"
    by (cases "f \<lparr>msg_id = p_id m, msg_event = p_event m, msg_data = d\<rparr>")
  let ?s1 = "called (Onmessage \<lparr>msg_id = p_id m, msg_event = p_event m, msg_data = d\<rparr>) a s"
  have q: "quiet s ?s1" by (rule quiet_called) simp
  show ?thesis
  proof (cases out)
    case (Returns u)
    with Some f quiet_trans [OF q quiet_update_lastEventId] show ?thesis
      by (simp add: send_message_def Let_def)
  next
    case (Throws e)
    with Some f q show ?thesis by (simp add: send_message_def Let_def)
  qed
qed

lemma quiet_process_lines: "quiet s (snd (process_lines cfg lines m s))"
proof (induction cfg lines m s rule: process_lines.induct)
  case (1 cfg message s)
  show ?case by simp
next
  case (2 cfg line lines message s)
  show ?case
  proof (cases "line = [CR] \<or> line = []")
    case blank: True
    show ?thesis
    proof (cases "p_data message")
      case None
      with blank "2.IH" show ?thesis by simp
    next
      case (Some d)
      obtain r s' where sm: "send_message cfg message d s = (r, s')"
        by (cases "send_message cfg message d s")
      have q: "quiet s s'" using quiet_send_message [of s cfg message d] sm by simp
      show ?thesis
      proof (cases r)
        case None
        from "2.IH" blank Some sm None have "quiet s' (snd (process_lines cfg lines empty_message s'))" by simp
        with q have "quiet s (snd (process_lines cfg lines empty_message s'))" by (rule quiet_trans)
        with blank Some sm None show ?thesis by simp
      next
        case (Some e)
        with blank \<open>p_data message = Some d\<close> sm q show ?thesis by simp
      qed
    qed
  next
    case nt: False
    show ?thesis
    proof (cases "startsWith line [colon]")
      case True
      with nt "2.IH" show ?thesis by simp
    next
      case False
      with nt "2.IH" show ?thesis by simp
    qed
  qed
qed


lemma quiet_buffer: "quiet s (s\<lparr>buffer := b\<rparr>)"
  by (simp add: quiet_def)

lemma quiet_handleChunk: "quiet s (handleChunk decode cfg bytes s)"
proof -
  let ?lines = "split_lines (buffer s @ decode bytes)"
  let ?s1 = "s\<lparr>buffer := last ?lines\<rparr>"
  obtain r s2 where pl: "process_lines cfg (butlast ?lines) empty_message ?s1 = (r, s2)"
    by (cases "process_lines cfg (butlast ?lines) empty_message ?s1")
  have "quiet ?s1 s2" using quiet_process_lines [of ?s1 cfg "butlast ?lines" empty_message] pl by simp
  with quiet_buffer have q2: "quiet s s2" by (rule quiet_trans)
  show ?thesis
  proof (cases r)
    case None
    with pl q2 show ?thesis by (simp add: handleChunk_def Let_def)
  next
    case (Some e)
    let ?s3 = "emit [ConsoleError ''handleChunk error:''] s2"
    have q3: "quiet s ?s3" by (rule quiet_trans [OF q2]) (simp add: quiet_emit)
    show ?thesis
    proof (cases "onerror cfg")
      case None
      with pl Some q3 show ?thesis by (simp add: handleChunk_def Let_def)
    next
      case f: (Some f)
      obtain a out where fe: "f e = (a, out)" by (cases "f e")
      let ?s4 = "called (Onerror e) a ?s3"
      have q4: "quiet s ?s4" by (rule quiet_trans [OF q3]) (simp add: quiet_called)
      have q5: "quiet s (emit [Uncaught e'] ?s4)" for e'
        by (rule quiet_trans [OF q4]) (simp add: quiet_emit)
      from pl Some f fe q4 q5 show ?thesis
        by (cases out) (simp_all add: handleChunk_def Let_def)
    qed
  qed
qed

lemma quiet_on_headers_received: "quiet s (on_headers_received cfg res s)"
proof (cases "onopen cfg")
  case None
  then show ?thesis by (simp add: on_headers_received_def)
next
  case (Some f)
  obtain a out where fr: "f res = (a, out)" by (cases "f res")
  have q1: "quiet s (called (Onopen res) a s)" by (simp add: quiet_called)
  have q2: "quiet s (emit [ConsoleError ''onopen error:'', Rejected x] (called (Onopen res) a s))" for x
    by (rule quiet_trans [OF q1]) (simp add: quiet_emit)
  from Some fr q1 q2 show ?thesis
    by (cases out) (simp_all add: on_headers_received_def Let_def)
qed

lemma inv_quiet: "quiet s s' \<Longrightarrow> budget_inv s \<Longrightarrow> budget_inv s'"
  by (auto simp: quiet_def budget_inv_def attempts_def split: if_splits)

lemma inv_scheduleRetry:
  "maxRetryCount cfg = Some 2 \<Longrightarrow> budget_inv s \<Longrightarrow> budget_inv (scheduleRetry cfg d s)"
  by (auto simp: scheduleRetry_def budget_inv_def attempts_def split: if_splits)

lemma inv_retry_by_onerror:
  assumes "maxRetryCount cfg = Some 2" "budget_inv s"
  shows "budget_inv (retry_by_onerror cfg e s)"
proof (cases "onerror cfg")
  case None
  with assms show ?thesis by (simp add: retry_by_onerror_def)
next
  case (Some f)
  obtain a out where fe: "f e = (a, out)" by (cases "f e")
  have i1: "budget_inv (called (Onerror e) a s)"
    by (rule inv_quiet [OF _ assms(2)]) (simp add: quiet_called)
  show ?thesis
  proof (cases out)
    case (Returns r)
    with Some fe i1 inv_scheduleRetry [OF assms(1) i1] show ?thesis
      by (cases r) (simp_all add: retry_by_onerror_def Let_def)
  next
    case (Throws x)
    with Some fe i1 show ?thesis by (simp add: retry_by_onerror_def Let_def)
  qed
qed

lemma inv_requestTask: "budget_inv (s\<lparr>requestTask := t\<rparr>) = budget_inv s"
  by (simp add: budget_inv_def attempts_def)

lemma inv_on_fail:
  "maxRetryCount cfg = Some 2 \<Longrightarrow> budget_inv s \<Longrightarrow> budget_inv (on_fail cfg e s)"
  by (simp add: on_fail_def inv_retry_by_onerror inv_requestTask)

lemma inv_connect_catch:
  assumes "maxRetryCount cfg = Some 2" "budget_inv s"
  shows "budget_inv (connect_catch cfg e s)"
proof (cases e)
  case (Thrown m)
  with assms show ?thesis by (simp add: connect_catch_def inv_retry_by_onerror)
next
  case (FatalError m)
  have "quiet s (emit [Rejected (FatalError m)] (abort s))"
    by (rule quiet_trans [OF quiet_abort]) (simp add: quiet_emit)
  with assms FatalError show ?thesis by (auto simp: connect_catch_def intro: inv_quiet)
qed

lemma inv_request:
  assumes "retryCount s \<le> 2" "retryTimer s = None" "int (attempts s) \<le> retryCount s"
  shows "budget_inv (emit [Request h] s)"
  using assms by (simp add: budget_inv_def attempts_def)

lemma inv_connect:
  assumes "maxRetryCount cfg = Some 2" "retryCount s \<le> 2" "retryTimer s = None"
    "int (attempts s) \<le> retryCount s"
  shows "budget_inv (connect cfg tr s)"
proof (cases "isAborted s")
  case True
  with assms show ?thesis by (simp add: connect_def budget_inv_def)
next
  case False
  let ?h = "if lastEventId s \<noteq> [] then AList.update LastEventId (lastEventId s) (inputHeaders cfg)
            else inputHeaders cfg"
  have i: "budget_inv (emit [Request ?h] s)" by (rule inv_request [OF assms(2,3,4)])
  from False i inv_connect_catch [OF assms(1)] show ?thesis
    by (cases tr) (simp_all add: connect_def Let_def inv_requestTask del: emit_fields)
qed

lemma inv_on_timer:
  assumes "maxRetryCount cfg = Some 2" "budget_inv s" "retryTimer s \<noteq> None"
  shows "budget_inv (on_timer cfg tr s)"
  unfolding on_timer_def
  by (rule inv_connect [OF assms(1)]) (use assms(2,3) in \<open>auto simp: budget_inv_def attempts_def\<close>)

lemma inv_initial: "maxRetryCount cfg = Some 2 \<Longrightarrow> budget_inv (fetchEventSource cfg tr)"
  unfolding fetchEventSource_def
  by (rule inv_connect) (simp_all add: initial_def attempts_def)

lemma inv_deliver:
  assumes "maxRetryCount cfg = Some 2" "budget_inv s" "enabled sig s" "sig \<noteq> Completed"
  shows "budget_inv (deliver decode cfg sig s)"
proof (cases sig)
  case (HeadersReceived res)
  with assms(2) show ?thesis by (auto intro: inv_quiet quiet_on_headers_received)
next
  case (ChunkReceived bytes)
  with assms(2) show ?thesis
    by (auto simp: on_chunk_received_def intro: inv_quiet quiet_handleChunk)
next
  case Completed
  with assms(4) show ?thesis by simp
next
  case (Failed e)
  with assms show ?thesis by (simp add: inv_on_fail)
next
  case (TimerFired tr)
  with assms show ?thesis by (simp add: inv_on_timer)
next
  case Abort
  with assms(2) show ?thesis by (auto intro: inv_quiet quiet_abort)
qed

lemma inv_run:
  "maxRetryCount cfg = Some 2 \<Longrightarrow> budget_inv s \<Longrightarrow> admissible decode cfg sigs s \<Longrightarrow>
     Completed \<notin> set sigs \<Longrightarrow> budget_inv (run decode cfg sigs s)"
proof (induction sigs arbitrary: s)
  case Nil
  then show ?case by simp
next
  case (Cons sig sigs)
  from Cons.prems have "budget_inv (deliver decode cfg sig s)"
    by (intro inv_deliver) auto
  with Cons show ?case by simp
qed

lemma scheduleRetry_exhausted:
  "maxRetryCount cfg = Some m \<Longrightarrow> \<not> isAborted s \<Longrightarrow> m \<le> retryCount s \<Longrightarrow>
     scheduleRetry cfg d s = emit [ConsoleWarn ''Max retry count reached''] s"
  by (simp add: scheduleRetry_def)

text \<open>
  Claim C3, as amended.  With \<open>maxRetryCount = 2\<close> the budget counts retries, not
  attempts: in every run in which no attempt ends in a clean close, at most three
  requests are issued (the first one and two retries), whatever the callbacks do.  When
  the count has reached 2, \<open>scheduleRetry\<close> sets no timer and calls no callback: it logs
  a warning and returns.  A clean close does not use the budget up: what the \<open>success\<close>
  callback does is what it does from a count of 0.
\<close>

theorem retry_budget:
  "(maxRetryCount cfg = Some 2 \<and> Completed \<notin> set sigs
      \<and> admissible decode cfg sigs (fetchEventSource cfg tr)
     \<longrightarrow> attempts (run decode cfg sigs (fetchEventSource cfg tr)) \<le> 3)
   \<and> (maxRetryCount cfg = Some 2 \<and> \<not> isAborted s \<and> 2 \<le> retryCount s
     \<longrightarrow> scheduleRetry cfg d s = emit [ConsoleWarn ''Max retry count reached''] s)
   \<and> (\<not> isAborted s \<longrightarrow> on_success cfg s = on_success cfg (s\<lparr>retryCount := 0\<rparr>))"
proof (intro conjI impI)
  assume a: "maxRetryCount cfg = Some 2 \<and> Completed \<notin> set sigs
      \<and> admissible decode cfg sigs (fetchEventSource cfg tr)"
  then have "budget_inv (run decode cfg sigs (fetchEventSource cfg tr))"
    by (intro inv_run inv_initial) auto
  then show "attempts (run decode cfg sigs (fetchEventSource cfg tr)) \<le> 3"
    by (auto simp: budget_inv_def split: if_splits)
next
  assume "maxRetryCount cfg = Some 2 \<and> \<not> isAborted s \<and> 2 \<le> retryCount s"
  then show "scheduleRetry cfg d s = emit [ConsoleWarn ''Max retry count reached''] s"
    by (simp add: scheduleRetry_exhausted)
next
  assume "\<not> isAborted s"
  then show "on_success cfg s = on_success cfg (s\<lparr>retryCount := 0\<rparr>)"
    by (simp add: on_success_def)
qed

theorem retry_budget_witness:
  "attempts (run uint8ArrayToUtf8 listener
        [Failed (Thrown ''reset''), TimerFired task0, Failed (Thrown ''reset''), TimerFired task0,
         Failed (Thrown ''reset'')]
        (fetchEventSource listener task0)) \<le> 3
   \<and> scheduleRetry listener 500 (initial\<lparr>retryCount := 2\<rparr>)
       = emit [ConsoleWarn ''Max retry count reached''] (initial\<lparr>retryCount := 2\<rparr>)
   \<and> on_success listener (initial\<lparr>retryCount := 2\<rparr>) = on_success listener initial"
proof -
  have h1: "maxRetryCount listener = Some 2
     \<and> Completed \<notin> set [Failed (Thrown ''reset''), TimerFired task0, Failed (Thrown ''reset''),
          TimerFired task0, Failed (Thrown ''reset'')]
     \<and> admissible uint8ArrayToUtf8 listener
          [Failed (Thrown ''reset''), TimerFired task0, Failed (Thrown ''reset''), TimerFired task0,
           Failed (Thrown ''reset'')] (fetchEventSource listener task0)"
    by (simp add: controller_defs listener_def task0_def)
  have h2: "maxRetryCount listener = Some 2 \<and> \<not> isAborted (initial\<lparr>retryCount := 2\<rparr>)
     \<and> 2 \<le> retryCount (initial\<lparr>retryCount := 2\<rparr>)"
    by (simp add: listener_def initial_def)
  from retry_budget [of listener "[Failed (Thrown ''reset''), TimerFired task0, Failed (Thrown ''reset''),
          TimerFired task0, Failed (Thrown ''reset'')]" uint8ArrayToUtf8 task0
          "initial\<lparr>retryCount := 2\<rparr>" 500] h1 h2
  show ?thesis by (simp add: initial_def)
qed

text \<open>
  Claim C3 as stated fails: after two failed attempts a timer is pending, and when it
  fires a third request is issued.  After three attempts that ended in a clean close a
  fourth request is issued.
\<close>

theorem third_attempt_after_two_failures:
  "maxRetryCount listener = Some 2
   \<and> retryTimer (run uint8ArrayToUtf8 listener
        [Failed (Thrown ''reset''), TimerFired task0, Failed (Thrown ''reset'')]
        (fetchEventSource listener task0)) = Some 500
   \<and> requests_of (trace (run uint8ArrayToUtf8 listener
        [Failed (Thrown ''reset''), TimerFired task0, Failed (Thrown ''reset''), TimerFired task0]
        (fetchEventSource listener task0))) = [[], [], []]
   \<and> requests_of (trace (run uint8ArrayToUtf8 listener
        [Completed, TimerFired task0, Completed, TimerFired task0, Completed, TimerFired task0]
        (fetchEventSource listener task0))) = [[], [], [], []]"
  by (simp add: controller_defs listener_def task0_def)

section \<open>Records split over chunks\<close>

text \<open>
  Claim C2 at a failing input.  The text \<open>data: x\<close>, newline, newline emits one message
  when it arrives in one chunk, and also when the chunk boundary falls inside the line
  (the unfinished line is kept in \<open>buffer\<close>).  When the boundary falls between the field
  line and the blank line, nothing is emitted: the message under construction is a local
  variable of \<open>handleChunk\<close> and is lost when the first call returns.
\<close>

theorem record_split_between_lines:
  "messages_of (trace (run uint8ArrayToUtf8 listener
       [ChunkReceived (ascii ''data: x'' @ [0x0a, 0x0a])] (fetchEventSource listener task0)))
     = [\<lparr>msg_id = None, msg_event = None, msg_data = js ''x'' @ [LF]\<rparr>]
   \<and> messages_of (trace (run uint8ArrayToUtf8 listener
       [ChunkReceived (ascii ''data''), ChunkReceived (ascii '': x'' @ [0x0a, 0x0a])]
       (fetchEventSource listener task0)))
     = [\<lparr>msg_id = None, msg_event = None, msg_data = js ''x'' @ [LF]\<rparr>]
   \<and> messages_of (trace (run uint8ArrayToUtf8 listener
       [ChunkReceived (ascii ''data: x'' @ [0x0a]), ChunkReceived [0x0a]]
       (fetchEventSource listener task0)))
     = []"
  by (simp add: controller_defs parser_defs listener_def task0_def)

section \<open>An exception of \<open>onopen\<close>\<close>

text \<open>
  Claim C6 at a failing input.  \<open>connect\<close> has returned, without an error, before the
  headers arrive.  When \<open>onopen\<close> then throws, the handler logs and its own promise is
  rejected with the \<open>FatalError\<close>; the session is not aborted, and a transport failure
  that follows is reported to \<open>onerror\<close> and retried.
\<close>

theorem onopen_throw_is_not_fatal:
  "trace (fetchEventSource failing_onopen task0) = [Request []]
   \<and> \<not> isAborted (run uint8ArrayToUtf8 failing_onopen [HeadersReceived (Response 200 [])]
         (fetchEventSource failing_onopen task0))
   \<and> trace (run uint8ArrayToUtf8 failing_onopen
         [HeadersReceived (Response 200 []), Failed (Thrown ''reset'')]
         (fetchEventSource failing_onopen task0))
       = [Request [], Onopen (Response 200 []), ConsoleError ''onopen error:'',
          Rejected (FatalError ''refused''), Onerror (Thrown ''reset''), SetTimeout 500]"
  by (simp add: controller_defs failing_onopen_def listener_def task0_def)

section \<open>The last event id\<close>

lemma scheduleRetry_lastEventId [simp]: "lastEventId (scheduleRetry cfg d s) = lastEventId s"
  by (simp add: scheduleRetry_def)

lemma scheduleRetry_requests [simp]:
  "requests_of (trace (scheduleRetry cfg d s)) = requests_of (trace s)"
  by (simp add: scheduleRetry_def)

lemma retry_by_onerror_lastEventId [simp]:
  "lastEventId (retry_by_onerror cfg e s) = lastEventId s"
  by (simp add: retry_by_onerror_def Let_def split: option.splits prod.splits outcome.splits)

lemma retry_by_onerror_requests [simp]:
  "requests_of (trace (retry_by_onerror cfg e s)) = requests_of (trace s)"
  by (simp add: retry_by_onerror_def Let_def split: option.splits prod.splits outcome.splits)

lemma connect_catch_lastEventId [simp]:
  "lastEventId (connect_catch cfg e s) = lastEventId s"
  by (simp add: connect_catch_def split: err.splits)

lemma connect_catch_requests [simp]:
  "requests_of (trace (connect_catch cfg e s)) = requests_of (trace s)"
  by (simp add: connect_catch_def split: err.splits)

lemma connect_lastEventId [simp]: "lastEventId (connect cfg tr s) = lastEventId s"
  by (simp add: connect_def Let_def split: transport.splits)


lemma on_success_lastEventId [simp]: "lastEventId (on_success cfg s) = lastEventId s"
  by (simp add: on_success_def Let_def split: option.splits prod.splits outcome.splits)

lemma on_fail_lastEventId [simp]: "lastEventId (on_fail cfg e s) = lastEventId s"
  by (simp add: on_fail_def)

lemma on_headers_received_lastEventId [simp]:
  "lastEventId (on_headers_received cfg res s) = lastEventId s"
  by (simp add: on_headers_received_def Let_def split: option.splits prod.splits outcome.splits)

lemma on_timer_lastEventId [simp]: "lastEventId (on_timer cfg tr s) = lastEventId s"
  by (simp add: on_timer_def)


lemma send_message_lastEventId:
  "send_message cfg message d s = (None, s') \<Longrightarrow>
     lastEventId s' = (case p_id message of
                         Some i \<Rightarrow> if i \<noteq> [] then i else lastEventId s
                       | None \<Rightarrow> lastEventId s)"
  by (auto simp: send_message_def update_lastEventId_def Let_def
        split: option.splits prod.splits outcome.splits)





lemma keeps_refl [simp]: "keeps s s"
  by (simp add: keeps_def)












lemma follows_refl [simp]: "follows i s s"
  by (simp add: follows_def)



















section \<open>When \<open>retryCount\<close> changes\<close>

text \<open>
  Claim C4, as amended.  \<open>retryCount\<close> is reset to 0 by the \<open>success\<close> callback of the
  request, that is, on a clean end of the stream of a session that is not aborted: what
  the callback leaves does not depend on the count it found, and is 0 or, when it armed
  the reconnect timer, 1.  The headers-received handler, which runs \<open>onopen\<close>, leaves
  \<open>retryCount\<close> as it is.  \<open>scheduleRetry\<close> adds one exactly when it arms a timer, that
  is, unless the session is aborted or the budget is reached.
\<close>

theorem retryCount_changes:
  "(\<not> isAborted s \<longrightarrow>
      on_success cfg s = on_success cfg (s\<lparr>retryCount := 0\<rparr>)
      \<and> 0 \<le> retryCount (on_success cfg s) \<and> retryCount (on_success cfg s) \<le> 1)
   \<and> retryCount (on_headers_received cfg res s) = retryCount s
   \<and> retryCount (scheduleRetry cfg d s) =
       (if isAborted s \<or> (case maxRetryCount cfg of None \<Rightarrow> False | Some m \<Rightarrow> m \<le> retryCount s)
        then retryCount s else retryCount s + 1)"
proof (intro conjI impI)
  assume a: "\<not> isAborted s"
  then show "on_success cfg s = on_success cfg (s\<lparr>retryCount := 0\<rparr>)"
    by (simp add: on_success_def)
  from a show "0 \<le> retryCount (on_success cfg s)"
    by (simp add: on_success_def scheduleRetry_def Let_def
          split: option.splits prod.splits outcome.splits)
  from a show "retryCount (on_success cfg s) \<le> 1"
    by (simp add: on_success_def scheduleRetry_def Let_def
          split: option.splits prod.splits outcome.splits)
next
  show "retryCount (on_headers_received cfg res s) = retryCount s"
    by (simp add: on_headers_received_def Let_def split: option.splits prod.splits outcome.splits)
next
  show "retryCount (scheduleRetry cfg d s) =
       (if isAborted s \<or> (case maxRetryCount cfg of None \<Rightarrow> False | Some m \<Rightarrow> m \<le> retryCount s)
        then retryCount s else retryCount s + 1)"
    by (simp add: scheduleRetry_def split: option.splits)
qed

theorem retryCount_changes_witness:
  "on_success listener ((fetchEventSource listener task0)\<lparr>retryCount := 1\<rparr>)
     = on_success listener ((fetchEventSource listener task0)\<lparr>retryCount := 0\<rparr>)
   \<and> retryCount (on_success listener ((fetchEventSource listener task0)\<lparr>retryCount := 1\<rparr>)) = 1
   \<and> retryCount (on_headers_received listener (Response 200 [])
        ((fetchEventSource listener task0)\<lparr>retryCount := 1\<rparr>)) = 1
   \<and> retryCount (scheduleRetry listener 500
        ((fetchEventSource listener task0)\<lparr>retryCount := 1\<rparr>)) = 2"
proof -
  let ?s = "(fetchEventSource listener task0)\<lparr>retryCount := 1\<rparr>"
  have live: "\<not> isAborted ?s" by (simp add: controller_defs task0_def)
  have one: "retryCount (on_success listener ?s) = 1"
    by (simp add: controller_defs listener_def task0_def)
  have rc: "retryCount ?s = 1" "maxRetryCount listener = Some 2" by (simp_all add: listener_def)
  from retryCount_changes [of ?s listener "Response 200 []" 500] live one rc
  show ?thesis by simp
qed

text \<open>
  Claim C4 as stated fails: after one failure and one retry the count is 1, and it is
  still 1 when the headers of the second attempt have arrived and \<open>onopen\<close> has returned.
\<close>

theorem open_keeps_retryCount:
  "retryCount (run uint8ArrayToUtf8 listener
       [Failed (Thrown ''reset''), TimerFired task0, HeadersReceived (Response 200 [])]
       (fetchEventSource listener task0)) = 1
   \<and> callbacks (run uint8ArrayToUtf8 listener
       [Failed (Thrown ''reset''), TimerFired task0, HeadersReceived (Response 200 [])]
       (fetchEventSource listener task0)) = [Onerror (Thrown ''reset''), Onopen (Response 200 [])]"
  by (simp add: controller_defs callbacks_def listener_def task0_def)

section \<open>A clean end of the stream\<close>

text \<open>
  Claim C8, as amended.  On a clean end of the stream, with \<open>openWhenHidden\<close> false, the
  session not aborted, \<open>onclose\<close> not calling \<open>abort()\<close>, and \<open>maxRetryCount\<close> unset or at
  least 1: the count is reset, \<open>onclose\<close> is called once, an error it throws is logged,
  and a reconnect is scheduled after 1000 ms; scheduling it makes the count 1.
\<close>

theorem clean_close_reconnects:
  "\<not> isAborted s \<and> \<not> openWhenHidden cfg
     \<and> (case maxRetryCount cfg of None \<Rightarrow> True | Some m \<Rightarrow> 0 < m)
     \<and> onclose cfg = Some (False, out)
   \<longrightarrow> on_success cfg s =
         emit (Onclose # (case out of Returns u \<Rightarrow> [] | Throws e \<Rightarrow> [ConsoleError ''onclose error:''])
                 @ [SetTimeout 1000])
           (s\<lparr>retryCount := 0 + 1, requestTask := None, retryTimer := Some 1000\<rparr>)
       \<and> callbacks (on_success cfg s) = callbacks s @ [Onclose]"
  by (cases out)
    (auto simp: on_success_def scheduleRetry_def called_def emit_def callbacks_def Let_def
       DefaultRetryInterval_def split: option.splits)

theorem clean_close_reconnects_witness:
  "on_success listener (fetchEventSource listener task0)
     = \<lparr>requestTask = None, retryCount = 1, retryTimer = Some 1000, isAborted = False,
        lastEventId = [], buffer = [], trace = [Request [], Onclose, SetTimeout 1000]\<rparr>
   \<and> callbacks (on_success listener (fetchEventSource listener task0)) = [Onclose]"
proof -
  have h: "\<not> isAborted (fetchEventSource listener task0) \<and> \<not> openWhenHidden listener
     \<and> (case maxRetryCount listener of None \<Rightarrow> True | Some m \<Rightarrow> 0 < m)
     \<and> onclose listener = Some (False, Returns ())"
    by (simp add: controller_defs listener_def task0_def)
  from clean_close_reconnects [of "fetchEventSource listener task0" listener "Returns ()"] h
  show ?thesis by (simp add: controller_defs callbacks_def listener_def task0_def)
qed

text \<open>
  Claim C8 as stated fails: with \<open>maxRetryCount = 0\<close> the reset count already meets the
  budget, and a clean end schedules no reconnect.
\<close>

theorem clean_close_without_budget:
  "\<not> openWhenHidden no_retries
   \<and> \<not> isAborted (fetchEventSource no_retries task0)
   \<and> retryTimer (on_success no_retries (fetchEventSource no_retries task0)) = None
   \<and> trace (on_success no_retries (fetchEventSource no_retries task0))
       = [Request [], Onclose, ConsoleWarn ''Max retry count reached'']"
  by (simp add: controller_defs no_retries_def listener_def task0_def)

end
